theory Spec2Isabelle
  imports Main "HOL-Library.Word"
begin

unbundle bit_operations_syntax

section \<open>The service skeleton of src/assets/service_skeleton_test/main.cpp\<close>

text \<open>
  The program has two globals (\<open>serviceStatus\<close>, \<open>serviceStatusHandle\<close>), a control
  callback \<open>ServiceCtrlHandler\<close>, the service entry routine \<open>ServiceMain\<close> and the
  process entry point \<open>main\<close>. The host's service manager is outside the program: what
  it returns (the registration handle), what it is told (the status reports, the sleeps)
  and when it calls the callback are made explicit below.
\<close>

subsection \<open>Data\<close>

type_synonym DWORD = "32 word"

text \<open>
  \<open>SERVICE_STATUS_HANDLE\<close> is an opaque pointer-sized handle; only its identity and
  the null value (a failed registration) matter here.
\<close>

type_synonym SERVICE_STATUS_HANDLE = nat

definition NULL :: SERVICE_STATUS_HANDLE where
  "NULL = 0"

text \<open>
  The seven DWORD fields of the platform's \<open>SERVICE_STATUS\<close> structure. The program
  writes the first three and leaves the others as they are.
\<close>

record SERVICE_STATUS =
  dwServiceType :: DWORD
  dwCurrentState :: DWORD
  dwControlsAccepted :: DWORD
  dwWin32ExitCode :: DWORD
  dwServiceSpecificExitCode :: DWORD
  dwCheckPoint :: DWORD
  dwWaitHint :: DWORD

text \<open>
  The constants come from the platform headers (winsvc.h, winnt.h), which are not among
  the sources of the repository; they have the values those headers document.
\<close>

definition SERVICE_WIN32_OWN_PROCESS :: DWORD where
  "SERVICE_WIN32_OWN_PROCESS = 0x10"

definition SERVICE_STOPPED :: DWORD where
  "SERVICE_STOPPED = 0x1"

definition SERVICE_RUNNING :: DWORD where
  "SERVICE_RUNNING = 0x4"

definition SERVICE_ACCEPT_STOP :: DWORD where
  "SERVICE_ACCEPT_STOP = 0x1"

definition SERVICE_CONTROL_STOP :: DWORD where
  "SERVICE_CONTROL_STOP = 0x1"

definition SERVICE_CONTROL_INTERROGATE :: DWORD where
  "SERVICE_CONTROL_INTERROGATE = 0x4"

text \<open>
  The globals of the program, together with what the host observes of it: the calls of
  \<open>SetServiceStatus\<close> (handle and a copy of the record passed, oldest first) and
  the milliseconds spent in \<open>Sleep\<close>.
\<close>

record globals =
  serviceStatus :: SERVICE_STATUS
  serviceStatusHandle :: SERVICE_STATUS_HANDLE
  reports :: "(SERVICE_STATUS_HANDLE \<times> SERVICE_STATUS) list"
  slept :: nat

text \<open>Globals have static storage: they start zeroed, and nothing has been reported.\<close>

definition zero_status :: SERVICE_STATUS where
  "zero_status = (| dwServiceType = 0, dwCurrentState = 0, dwControlsAccepted = 0,
     dwWin32ExitCode = 0, dwServiceSpecificExitCode = 0, dwCheckPoint = 0, dwWaitHint = 0 |)"

definition initial_globals :: globals where
  "initial_globals = (| serviceStatus = zero_status, serviceStatusHandle = NULL,
     reports = [], slept = 0 |)"

subsection \<open>The host calls the program makes\<close>

definition SetServiceStatus :: "SERVICE_STATUS_HANDLE \<Rightarrow> SERVICE_STATUS \<Rightarrow> globals \<Rightarrow> globals" where
  "SetServiceStatus h s g = g (| reports := reports g @ [(h, s)] |)"

definition Sleep :: "nat \<Rightarrow> globals \<Rightarrow> globals" where
  "Sleep ms g = g (| slept := slept g + ms |)"

subsection \<open>The statements\<close>

definition set_dwServiceType :: "DWORD \<Rightarrow> globals \<Rightarrow> globals" where
  "set_dwServiceType v g = g (| serviceStatus := (serviceStatus g) (| dwServiceType := v |) |)"

definition set_dwCurrentState :: "DWORD \<Rightarrow> globals \<Rightarrow> globals" where
  "set_dwCurrentState v g = g (| serviceStatus := (serviceStatus g) (| dwCurrentState := v |) |)"

definition set_dwControlsAccepted :: "DWORD \<Rightarrow> globals \<Rightarrow> globals" where
  "set_dwControlsAccepted v g =
     g (| serviceStatus := (serviceStatus g) (| dwControlsAccepted := v |) |)"

text \<open>\<open>SetServiceStatus(serviceStatusHandle, &serviceStatus)\<close>, as both routines call it.\<close>

definition report_status :: "globals \<Rightarrow> globals" where
  "report_status g = SetServiceStatus (serviceStatusHandle g) (serviceStatus g) g"

subsection \<open>The control callback, run without interruption\<close>

definition ServiceCtrlHandler :: "DWORD \<Rightarrow> globals \<Rightarrow> globals" where
  "ServiceCtrlHandler ctrlCode g =
     (if ctrlCode = SERVICE_CONTROL_STOP
      then report_status (set_dwCurrentState SERVICE_STOPPED g)
      else g)"

subsection \<open>The entry routine up to its loop, run without interruption\<close>

text \<open>
  Lines 14 to 23 of \<open>ServiceMain\<close>. The argument \<open>h\<close> is what
  \<open>RegisterServiceCtrlHandler\<close> returns (\<open>NULL\<close> when the registration fails); the
  program stores it and never looks at it.
\<close>

definition ServiceMain_init :: "SERVICE_STATUS_HANDLE \<Rightarrow> globals \<Rightarrow> globals" where
  "ServiceMain_init h g =
     report_status
       (set_dwControlsAccepted SERVICE_ACCEPT_STOP
         (set_dwCurrentState SERVICE_RUNNING
           (set_dwServiceType SERVICE_WIN32_OWN_PROCESS
             (g (| serviceStatusHandle := h |)))))"

subsection \<open>The two threads of control, statement by statement\<close>

text \<open>
  The entry routine and the callback run on different threads and share the globals.
  Each statement of the source is one atomic step, and the steps of the two threads
  interleave in any order (a sequentially consistent reading of the unsynchronised
  accesses). The program counters are named after the lines of main.cpp: \<open>L29\<close> is the
  entry routine after its loop (returned), \<open>HIdle\<close> is the callback not running,
  \<open>H7 c\<close> the callback entered with control code \<open>c\<close>.
\<close>

datatype main_pc = L14 | L19 | L20 | L21 | L23 | L26 | L27 | L29

datatype handler_pc = HIdle | H7 DWORD | H8 | H9

fun ServiceMain_step :: "SERVICE_STATUS_HANDLE \<Rightarrow> main_pc \<Rightarrow> globals \<Rightarrow> (main_pc \<times> globals) option" where
  "ServiceMain_step h L14 g = Some (L19, g (| serviceStatusHandle := h |))"
| "ServiceMain_step h L19 g = Some (L20, set_dwServiceType SERVICE_WIN32_OWN_PROCESS g)"
| "ServiceMain_step h L20 g = Some (L21, set_dwCurrentState SERVICE_RUNNING g)"
| "ServiceMain_step h L21 g = Some (L23, set_dwControlsAccepted SERVICE_ACCEPT_STOP g)"
| "ServiceMain_step h L23 g = Some (L26, report_status g)"
| "ServiceMain_step h L26 g =
     Some (if dwCurrentState (serviceStatus g) = SERVICE_RUNNING then L27 else L29, g)"
| "ServiceMain_step h L27 g = Some (L26, Sleep 1000 g)"
| "ServiceMain_step h L29 g = None"

fun ServiceCtrlHandler_step :: "handler_pc \<Rightarrow> globals \<Rightarrow> (handler_pc \<times> globals) option" where
  "ServiceCtrlHandler_step HIdle g = None"
| "ServiceCtrlHandler_step (H7 ctrlCode) g =
     Some (if ctrlCode = SERVICE_CONTROL_STOP then H8 else HIdle, g)"
| "ServiceCtrlHandler_step H8 g = Some (H9, set_dwCurrentState SERVICE_STOPPED g)"
| "ServiceCtrlHandler_step H9 g = Some (HIdle, report_status g)"

record config =
  mem :: globals
  mpc :: main_pc
  hpc :: handler_pc

text \<open>
  What can happen next: the entry routine executes its next statement, the host calls
  the callback with a control code, or the callback executes its next statement.
  Line 14, the registration call with the store of its result, is one step. The host
  calls the callback only once line 14 has registered it, and one call at a time;
  nothing else restricts when it calls, or with which code. An event that cannot
  happen in a configuration gives \<open>None\<close>: the entry routine has returned, the
  callback is not registered yet or is still running, or no callback is running.
\<close>

datatype event = Main | Deliver DWORD | Handler

fun step :: "SERVICE_STATUS_HANDLE \<Rightarrow> event \<Rightarrow> config \<Rightarrow> config option" where
  "step h Main c =
     (case ServiceMain_step h (mpc c) (mem c) of
        None \<Rightarrow> None
      | Some (pc, g) \<Rightarrow> Some (c (| mem := g, mpc := pc |)))"
| "step h (Deliver ctrlCode) c =
     (if hpc c = HIdle \<and> mpc c \<noteq> L14 then Some (c (| hpc := H7 ctrlCode |)) else None)"
| "step h Handler c =
     (case ServiceCtrlHandler_step (hpc c) (mem c) of
        None \<Rightarrow> None
      | Some (pc, g) \<Rightarrow> Some (c (| mem := g, hpc := pc |)))"

fun exec :: "SERVICE_STATUS_HANDLE \<Rightarrow> event list \<Rightarrow> config \<Rightarrow> config option" where
  "exec h [] c = Some c"
| "exec h (e # es) c = (case step h e c of None \<Rightarrow> None | Some c' \<Rightarrow> exec h es c')"

text \<open>The entry routine about to start on the globals \<open>g\<close>, the callback not running.\<close>

definition ServiceMain_entry :: "globals \<Rightarrow> config" where
  "ServiceMain_entry g = (| mem = g, mpc = L14, hpc = HIdle |)"

text \<open>One whole call of the callback with code \<open>c\<close>, as a schedule.\<close>

definition callback_run :: "DWORD \<Rightarrow> event list" where
  "callback_run c =
     (if c = SERVICE_CONTROL_STOP then [Deliver c, Handler, Handler, Handler]
      else [Deliver c, Handler])"

definition in_loop :: "config \<Rightarrow> bool" where
  "in_loop c = (mpc c = L26 \<or> mpc c = L27)"

subsection \<open>The process entry point\<close>

text \<open>
  Modelled from the spec: \<open>StartServiceCtrlDispatcher\<close> is the host's dispatcher, which
  is not part of the repository. When the process was not started by the service
  manager (\<open>connected\<close> is false) it fails at once and the entry routine never runs.
  Otherwise the host runs the entry routine and the callback along the schedule, and
  control returns to \<open>main\<close> once the entry routine has returned and no callback is
  running ("upon observing Stopped, the loop exits and control returns to the entry
  point, which then returns, ending the process"). \<open>None\<close>: the dispatcher has not
  returned on this schedule.
\<close>

definition StartServiceCtrlDispatcher ::
  "bool \<Rightarrow> SERVICE_STATUS_HANDLE \<Rightarrow> event list \<Rightarrow> (bool \<times> config) option" where
  "StartServiceCtrlDispatcher connected h evs =
     (if \<not> connected then Some (False, ServiceMain_entry initial_globals)
      else (case exec h evs (ServiceMain_entry initial_globals) of
              None \<Rightarrow> None
            | Some c \<Rightarrow> if mpc c = L29 \<and> hpc c = HIdle then Some (True, c) else None))"

text \<open>
  \<open>main\<close> calls the dispatcher, ignores what it returns and returns 0. The result is
  the exit code, \<open>None\<close> while the dispatcher has not returned.
\<close>

definition main :: "bool \<Rightarrow> SERVICE_STATUS_HANDLE \<Rightarrow> event list \<Rightarrow> int option" where
  "main connected h evs =
     (case StartServiceCtrlDispatcher connected h evs of
        None \<Rightarrow> None
      | Some r \<Rightarrow> Some 0)"

subsection \<open>Notions used in the statements and proofs\<close>

text \<open>
  After line 23 the entry routine is at the loop's test, in its body, or has returned.
\<close>

definition past_init :: "config \<Rightarrow> bool" where
  "past_init c = (mpc c = L26 \<or> mpc c = L27 \<or> mpc c = L29)"

text \<open>How many statements the entry routine still executes once the state is Stopped.\<close>

definition loop_rank :: "main_pc \<Rightarrow> nat" where
  "loop_rank pc = (if pc = L27 then 2 else if pc = L26 then 1 else 0)"

text \<open>
  A running service, registered with handle 1, whose entry routine is inside the loop
  body; and the same service once the callback has processed a Stop.
\<close>

definition running_config :: config where
  "running_config = (| mem = ServiceMain_init 1 initial_globals, mpc = L27, hpc = HIdle |)"

definition stopped_config :: config where
  "stopped_config = running_config
     (| mem := ServiceCtrlHandler SERVICE_CONTROL_STOP (mem running_config) |)"

text \<open>
  The schedule on which the callback processes one Stop, uninterrupted, after the entry
  routine has executed \<open>k\<close> of its statements, and the entry routine then executes
  \<open>n\<close> more.
\<close>

definition stop_after :: "nat \<Rightarrow> nat \<Rightarrow> event list" where
  "stop_after k n = replicate k Main @ callback_run SERVICE_CONTROL_STOP @ replicate n Main"

text \<open>The entry routine on its own: \<open>n\<close> of its statements, nothing interleaved.\<close>

fun ServiceMain_run ::
  "SERVICE_STATUS_HANDLE \<Rightarrow> nat \<Rightarrow> main_pc \<times> globals \<Rightarrow> (main_pc \<times> globals) option" where
  "ServiceMain_run h 0 s = Some s"
| "ServiceMain_run h (Suc n) s =
     (case ServiceMain_step h (fst s) (snd s) of
        None \<Rightarrow> None
      | Some s' \<Rightarrow> ServiceMain_run h n s')"


text \<open>
  The globals when, from the start of the process and with handle 1, the entry routine
  has executed lines 14, 19 and 20, the callback then processes a Stop, and the entry
  routine goes on with lines 21 and 23.
\<close>

definition stop_after_line_20 :: globals where
  "stop_after_line_20 =
     report_status
       (set_dwControlsAccepted SERVICE_ACCEPT_STOP
         (ServiceCtrlHandler SERVICE_CONTROL_STOP
           (set_dwCurrentState SERVICE_RUNNING
             (set_dwServiceType SERVICE_WIN32_OWN_PROCESS
               (initial_globals (| serviceStatusHandle := 1 |))))))"

text \<open>
  The same when the callback processes the Stop right after line 14 and the entry routine
  goes on with lines 19 to 23.
\<close>

definition stop_after_line_14 :: globals where
  "stop_after_line_14 =
     report_status
       (set_dwControlsAccepted SERVICE_ACCEPT_STOP
         (set_dwCurrentState SERVICE_RUNNING
           (set_dwServiceType SERVICE_WIN32_OWN_PROCESS
             (ServiceCtrlHandler SERVICE_CONTROL_STOP
               (initial_globals (| serviceStatusHandle := 1 |))))))"



section \<open>Basic facts\<close>

lemmas stmt_defs = set_dwServiceType_def set_dwCurrentState_def set_dwControlsAccepted_def
  report_status_def SetServiceStatus_def Sleep_def

lemmas const_defs = SERVICE_WIN32_OWN_PROCESS_def SERVICE_STOPPED_def SERVICE_RUNNING_def
  SERVICE_ACCEPT_STOP_def SERVICE_CONTROL_STOP_def SERVICE_CONTROL_INTERROGATE_def

lemma running_not_stopped: "SERVICE_RUNNING \<noteq> SERVICE_STOPPED"
  by (simp add: const_defs)


lemma exec_append:
  "exec h (xs @ ys) c = (case exec h xs c of None \<Rightarrow> None | Some c' \<Rightarrow> exec h ys c')"
  by (induction xs arbitrary: c) (auto split: option.splits)

text \<open>
  The statement-by-statement callback, when nothing interleaves with it, is the
  callback run as a whole.
\<close>

lemma callback_run_exec:
  "hpc c = HIdle \<Longrightarrow> mpc c \<noteq> L14 \<Longrightarrow>
   exec h (callback_run k) c = Some (c (| mem := ServiceCtrlHandler k (mem c) |))"
  by (simp add: callback_run_def ServiceCtrlHandler_def)

text \<open>So is the entry routine up to its loop.\<close>

lemma init_exec:
  "exec h (replicate 5 Main) (ServiceMain_entry g) =
     Some (| mem = ServiceMain_init h g, mpc = L26, hpc = HIdle |)"
  by (simp add: numeral_eq_Suc ServiceMain_entry_def ServiceMain_init_def)

lemma stopped_rewrite:
  "dwCurrentState (serviceStatus g) = SERVICE_STOPPED \<Longrightarrow>
   set_dwCurrentState SERVICE_STOPPED g = g"
  by (simp add: set_dwCurrentState_def)



subsection \<open>Once the state is Stopped and the initialisation is over\<close>

text \<open>
  No step changes the status record any more: the entry routine only tests and sleeps,
  and the callback writes Stopped over Stopped. The entry routine sleeps at most once
  more, and each of its steps brings it closer to its return.
\<close>

lemma step_stopped:
  assumes "step h e c = Some c'"
    and "dwCurrentState (serviceStatus (mem c)) = SERVICE_STOPPED"
    and "past_init c"
  shows "serviceStatus (mem c') = serviceStatus (mem c)
    \<and> past_init c'
    \<and> slept (mem c') + (if mpc c' = L27 then 1000 else 0)
          \<le> slept (mem c) + (if mpc c = L27 then 1000 else 0)
    \<and> loop_rank (mpc c') + (if e = Main then 1 else 0) = loop_rank (mpc c)"
proof (cases e)
  case Main
  from assms(3) consider "mpc c = L26" | "mpc c = L27" | "mpc c = L29"
    by (auto simp: past_init_def)
  then show ?thesis
  proof cases
    case 1
    with Main assms show ?thesis
      by (auto simp: past_init_def loop_rank_def running_not_stopped [symmetric])
  next
    case 2
    with Main assms show ?thesis
      by (auto simp: past_init_def loop_rank_def Sleep_def)
  next
    case 3
    with Main assms show ?thesis by simp
  qed
next
  case (Deliver k)
  with assms show ?thesis
    by (auto simp: past_init_def split: if_splits)
next
  case Handler
  show ?thesis
  proof (cases "hpc c")
    case HIdle
    with Handler assms show ?thesis by simp
  next
    case (H7 k)
    with Handler assms show ?thesis by (auto simp: past_init_def)
  next
    case H8
    with Handler assms show ?thesis by (auto simp: past_init_def stopped_rewrite)
  next
    case H9
    with Handler assms show ?thesis
      by (auto simp: past_init_def report_status_def SetServiceStatus_def)
  qed
qed

lemma exec_stopped:
  "exec h evs c = Some c' \<Longrightarrow> dwCurrentState (serviceStatus (mem c)) = SERVICE_STOPPED \<Longrightarrow>
   past_init c \<Longrightarrow>
   serviceStatus (mem c') = serviceStatus (mem c)
    \<and> past_init c'
    \<and> slept (mem c') + (if mpc c' = L27 then 1000 else 0)
          \<le> slept (mem c) + (if mpc c = L27 then 1000 else 0)
    \<and> loop_rank (mpc c') + count_list evs Main = loop_rank (mpc c)"
proof (induction evs arbitrary: c)
  case Nil
  then show ?case by simp
next
  case (Cons e es)
  from Cons.prems(1) obtain c1 where s: "step h e c = Some c1" and r: "exec h es c1 = Some c'"
    by (auto split: option.splits)
  note a = step_stopped [OF s Cons.prems(2) Cons.prems(3)]
  from a Cons.prems(2) have st: "dwCurrentState (serviceStatus (mem c1)) = SERVICE_STOPPED"
    by simp
  from a have p: "past_init c1" by simp
  note b = Cons.IH [OF r st p]
  from a b show ?case by (auto split: if_splits)
qed



section \<open>The claims\<close>




text \<open>
  C2. Called with Stop, on any globals, the callback sets \<open>dwCurrentState\<close> to Stopped
  and leaves the other fields of the record; it then issues exactly one status report,
  through the stored handle, and the report carries the updated record. Nothing else
  changes.
\<close>

theorem ServiceCtrlHandler_stop:
  "serviceStatus (ServiceCtrlHandler SERVICE_CONTROL_STOP g) =
     (serviceStatus g) (| dwCurrentState := SERVICE_STOPPED |)
   \<and> dwCurrentState (serviceStatus (ServiceCtrlHandler SERVICE_CONTROL_STOP g)) = SERVICE_STOPPED
   \<and> reports (ServiceCtrlHandler SERVICE_CONTROL_STOP g) =
       reports g @ [(serviceStatusHandle g,
                     serviceStatus (ServiceCtrlHandler SERVICE_CONTROL_STOP g))]
   \<and> serviceStatusHandle (ServiceCtrlHandler SERVICE_CONTROL_STOP g) = serviceStatusHandle g
   \<and> slept (ServiceCtrlHandler SERVICE_CONTROL_STOP g) = slept g"
  by (simp add: ServiceCtrlHandler_def stmt_defs)

text \<open>
  C4. Called with any control code other than Stop, the callback changes nothing: the
  status record (and so \<open>dwCurrentState\<close>) is as before and no status report is
  issued.
\<close>

theorem ServiceCtrlHandler_other:
  "ctrlCode \<noteq> SERVICE_CONTROL_STOP \<Longrightarrow> ServiceCtrlHandler ctrlCode g = g"
  by (simp add: ServiceCtrlHandler_def)

theorem ServiceCtrlHandler_other_witness:
  "SERVICE_CONTROL_INTERROGATE \<noteq> SERVICE_CONTROL_STOP
   \<and> ServiceCtrlHandler SERVICE_CONTROL_INTERROGATE (mem running_config) = mem running_config"
  using ServiceCtrlHandler_other [of SERVICE_CONTROL_INTERROGATE "mem running_config"]
  by (simp add: const_defs)

text \<open>
  C5. Two Stops in succession leave the status record as one Stop leaves it, with
  \<open>dwCurrentState\<close> Stopped. The callback has no failing branch, and the second call
  runs to its end like the first: from a configuration where the callback is registered
  and not running, the schedule of the two calls is executed in full and the callback is
  idle again.
\<close>

theorem ServiceCtrlHandler_stop_twice:
  "serviceStatus (ServiceCtrlHandler SERVICE_CONTROL_STOP
       (ServiceCtrlHandler SERVICE_CONTROL_STOP g)) =
     serviceStatus (ServiceCtrlHandler SERVICE_CONTROL_STOP g)
   \<and> dwCurrentState (serviceStatus (ServiceCtrlHandler SERVICE_CONTROL_STOP
       (ServiceCtrlHandler SERVICE_CONTROL_STOP g))) = SERVICE_STOPPED
   \<and> (hpc c = HIdle \<and> mpc c \<noteq> L14 \<longrightarrow>
        exec h (callback_run SERVICE_CONTROL_STOP @ callback_run SERVICE_CONTROL_STOP) c =
          Some (c (| mem := ServiceCtrlHandler SERVICE_CONTROL_STOP
                       (ServiceCtrlHandler SERVICE_CONTROL_STOP (mem c)) |)))"
proof -
  have a: "serviceStatus (ServiceCtrlHandler SERVICE_CONTROL_STOP
       (ServiceCtrlHandler SERVICE_CONTROL_STOP g)) =
     serviceStatus (ServiceCtrlHandler SERVICE_CONTROL_STOP g)"
    by (simp add: ServiceCtrlHandler_def stmt_defs)
  have b: "dwCurrentState (serviceStatus (ServiceCtrlHandler SERVICE_CONTROL_STOP
       (ServiceCtrlHandler SERVICE_CONTROL_STOP g))) = SERVICE_STOPPED"
    by (simp add: ServiceCtrlHandler_def stmt_defs)
  have c: "hpc c = HIdle \<and> mpc c \<noteq> L14 \<longrightarrow>
        exec h (callback_run SERVICE_CONTROL_STOP @ callback_run SERVICE_CONTROL_STOP) c =
          Some (c (| mem := ServiceCtrlHandler SERVICE_CONTROL_STOP
                       (ServiceCtrlHandler SERVICE_CONTROL_STOP (mem c)) |))"
    by (simp add: exec_append callback_run_exec)
  from a b c show ?thesis by blast
qed

theorem ServiceCtrlHandler_stop_twice_witness:
  "hpc running_config = HIdle \<and> mpc running_config \<noteq> L14
   \<and> exec 1 (callback_run SERVICE_CONTROL_STOP @ callback_run SERVICE_CONTROL_STOP)
       running_config =
       Some (running_config (| mem := ServiceCtrlHandler SERVICE_CONTROL_STOP
                       (ServiceCtrlHandler SERVICE_CONTROL_STOP (mem running_config)) |))
   \<and> serviceStatus (ServiceCtrlHandler SERVICE_CONTROL_STOP
       (ServiceCtrlHandler SERVICE_CONTROL_STOP (mem running_config))) =
     serviceStatus (mem stopped_config)"
  using ServiceCtrlHandler_stop_twice [of "mem running_config" running_config 1]
  by (simp add: running_config_def stopped_config_def)

text \<open>
  C9. Whatever the control code, a call of the callback leaves \<open>dwServiceType\<close> and
  \<open>dwControlsAccepted\<close> as they were. The record after the call is the record before
  it, or the record before it with \<open>dwCurrentState\<close> set to Stopped: the callback
  writes no other field and no other value.
\<close>

theorem ServiceCtrlHandler_frame:
  "dwServiceType (serviceStatus (ServiceCtrlHandler ctrlCode g)) =
     dwServiceType (serviceStatus g)
   \<and> dwControlsAccepted (serviceStatus (ServiceCtrlHandler ctrlCode g)) =
       dwControlsAccepted (serviceStatus g)
   \<and> (serviceStatus (ServiceCtrlHandler ctrlCode g) = serviceStatus g
      \<or> serviceStatus (ServiceCtrlHandler ctrlCode g) =
          (serviceStatus g) (| dwCurrentState := SERVICE_STOPPED |))"
  by (simp add: ServiceCtrlHandler_def stmt_defs)


subsection \<open>The entry routine among deliveries that are not Stop\<close>


lemma ServiceMain_run_enter:
  "ServiceMain_run h 6 (L14, g) = Some (L27, ServiceMain_init h g)"
  by (simp add: numeral_eq_Suc ServiceMain_init_def stmt_defs)






text \<open>
  C6. The only exit code \<open>main\<close> returns is 0: on every execution it has either not
  returned or returned 0. It returns 0 at once when the dispatcher cannot connect. After
  a registration (with any handle) and initialisation followed at once by a Stop, which
  the callback processes before the entry routine's next statement, the entry routine
  leaves its loop at the first test and \<open>main\<close> returns 0.
\<close>

theorem main_exit_code:
  "(main connected h evs = None \<or> main connected h evs = Some 0)
   \<and> main False h evs = Some 0
   \<and> main True h (stop_after 5 1) = Some 0"
proof -
  have a: "main connected h evs = None \<or> main connected h evs = Some 0"
    by (simp add: main_def split: option.splits)
  have b: "main False h evs = Some 0"
    by (simp add: main_def StartServiceCtrlDispatcher_def)
  have "exec h (stop_after 5 1) (ServiceMain_entry initial_globals) =
      Some (| mem = ServiceCtrlHandler SERVICE_CONTROL_STOP (ServiceMain_init h initial_globals),
              mpc = L29, hpc = HIdle |)"
    by (simp add: stop_after_def exec_append init_exec callback_run_exec
        ServiceCtrlHandler_def stmt_defs running_not_stopped [symmetric])
  then have c: "main True h (stop_after 5 1) = Some 0"
    by (simp add: main_def StartServiceCtrlDispatcher_def)
  from a b c show ?thesis by blast
qed

text \<open>
  While no Stop is delivered the loop goes on: on the schedules where only the entry
  routine runs, \<open>main\<close> has not returned, however long the schedule.
\<close>

lemma ServiceMain_running_forever:
  "dwCurrentState (serviceStatus (mem c)) = SERVICE_RUNNING \<Longrightarrow> in_loop c \<Longrightarrow>
   \<exists>c'. exec h (replicate n Main) c = Some c' \<and> in_loop c'
     \<and> dwCurrentState (serviceStatus (mem c')) = SERVICE_RUNNING \<and> hpc c' = hpc c"
proof (induction n arbitrary: c)
  case 0
  then show ?case by simp
next
  case (Suc n)
  from Suc.prems obtain c1 where s: "step h Main c = Some c1" and l: "in_loop c1"
    and r: "dwCurrentState (serviceStatus (mem c1)) = SERVICE_RUNNING" and k: "hpc c1 = hpc c"
    by (auto simp: in_loop_def Sleep_def)
  from Suc.IH [OF r l] s k show ?case by auto
qed

text \<open>
  So it does after a Stop that the callback processed right after line 14: however many
  statements the entry routine executes, it is in its loop and the state is Running.
\<close>

lemma early_stop_keeps_running:
  "\<exists>c'. exec h (stop_after 1 (4 + n)) (ServiceMain_entry g) = Some c' \<and> in_loop c'
     \<and> dwCurrentState (serviceStatus (mem c')) = SERVICE_RUNNING"
proof -
  let ?g = "report_status (set_dwControlsAccepted SERVICE_ACCEPT_STOP
      (set_dwCurrentState SERVICE_RUNNING (set_dwServiceType SERVICE_WIN32_OWN_PROCESS
        (ServiceCtrlHandler SERVICE_CONTROL_STOP (g (| serviceStatusHandle := h |))))))"
  let ?c = "(| mem = ?g, mpc = L26, hpc = HIdle |)"
  have s: "stop_after 1 (4 + n) = stop_after 1 4 @ replicate n Main"
    by (simp add: stop_after_def replicate_add)
  have e: "exec h (stop_after 1 4) (ServiceMain_entry g) = Some ?c"
    by (simp add: stop_after_def callback_run_def numeral_eq_Suc ServiceMain_entry_def
        ServiceCtrlHandler_def)
  have r: "dwCurrentState (serviceStatus (mem ?c)) = SERVICE_RUNNING"
    by (simp add: stmt_defs)
  have l: "in_loop ?c" by (simp add: in_loop_def)
  from ServiceMain_running_forever [OF r l, of h n] obtain c' where
    x: "exec h (replicate n Main) ?c = Some c'" and y: "in_loop c'"
    and z: "dwCurrentState (serviceStatus (mem c')) = SERVICE_RUNNING"
    by blast
  from e x have "exec h (stop_after 1 4 @ replicate n Main) (ServiceMain_entry g) = Some c'"
    by (simp only: exec_append option.case)
  with s have "exec h (stop_after 1 (4 + n)) (ServiceMain_entry g) = Some c'"
    by (simp only:)
  with y z show ?thesis by blast
qed

lemma main_without_stop: "main True h (replicate n Main) = None"
proof (cases "n \<le> 5")
  case True
  then have "n \<in> {0, 1, 2, 3, 4, 5}" by auto
  then show ?thesis
    by (auto simp: main_def StartServiceCtrlDispatcher_def ServiceMain_entry_def
        numeral_eq_Suc)
next
  case False
  then have n: "replicate n Main = replicate 5 Main @ replicate (n - 5) Main"
    by (simp add: replicate_add [symmetric])
  have r: "dwCurrentState (serviceStatus (mem (| mem = ServiceMain_init h initial_globals,
      mpc = L26, hpc = HIdle |))) = SERVICE_RUNNING"
    by (simp add: ServiceMain_init_def stmt_defs)
  have l: "in_loop (| mem = ServiceMain_init h initial_globals, mpc = L26, hpc = HIdle |)"
    by (simp add: in_loop_def)
  from ServiceMain_running_forever [OF r l, of h "n - 5"] obtain c' where
    "exec h (replicate (n - 5) Main)
       (| mem = ServiceMain_init h initial_globals, mpc = L26, hpc = HIdle |) = Some c'"
    and "in_loop c'"
    by blast
  then show ?thesis
    by (subst n) (auto simp: main_def StartServiceCtrlDispatcher_def exec_append init_exec
        in_loop_def)
qed

text \<open>
  C7. The result of the registration is never looked at. Whatever handle \<open>h\<close> the
  registration returns, \<open>NULL\<close> included, the entry routine on its own stores it,
  initialises the status record, issues the status report with that handle and, at its
  sixth statement, is inside the run loop (about to sleep); and the program counter after
  any statement depends neither on \<open>h\<close> nor on the handle stored.
\<close>

theorem registration_result_unchecked:
  "ServiceMain_run h 6 (L14, g) = Some (L27, ServiceMain_init h g)
   \<and> exec h (replicate 6 Main) (ServiceMain_entry g) =
       Some (| mem = ServiceMain_init h g, mpc = L27, hpc = HIdle |)
   \<and> serviceStatusHandle (ServiceMain_init h g) = h
   \<and> dwCurrentState (serviceStatus (ServiceMain_init h g)) = SERVICE_RUNNING
   \<and> reports (ServiceMain_init h g) = reports g @ [(h, serviceStatus (ServiceMain_init h g))]
   \<and> ServiceMain_run NULL 6 (L14, g) = Some (L27, ServiceMain_init NULL g)
   \<and> map_option fst (ServiceMain_step h pc (g (| serviceStatusHandle := x |))) =
       map_option fst (ServiceMain_step h' pc g)"
proof -
  have a: "ServiceMain_run h 6 (L14, g) = Some (L27, ServiceMain_init h g)" for h
    by (rule ServiceMain_run_enter)
  have "replicate 6 Main = replicate 5 Main @ [Main]"
    by (simp add: numeral_eq_Suc)
  then have b: "exec h (replicate 6 Main) (ServiceMain_entry g) =
       Some (| mem = ServiceMain_init h g, mpc = L27, hpc = HIdle |)"
    by (simp add: exec_append init_exec ServiceMain_init_def stmt_defs)
  have c: "serviceStatusHandle (ServiceMain_init h g) = h"
    and d: "dwCurrentState (serviceStatus (ServiceMain_init h g)) = SERVICE_RUNNING"
    and e: "reports (ServiceMain_init h g) =
       reports g @ [(h, serviceStatus (ServiceMain_init h g))]"
    by (simp_all add: ServiceMain_init_def stmt_defs)
  have f: "map_option fst (ServiceMain_step h pc (g (| serviceStatusHandle := x |))) =
       map_option fst (ServiceMain_step h' pc g)"
    by (cases pc) (simp_all add: stmt_defs)
  from a [of h] a [of NULL] b c d e f show ?thesis by blast
qed

text \<open>
  C8. When the loop's test finds \<open>dwCurrentState\<close> Stopped, the loop ends: the entry
  routine goes to its return, writing nothing. From then on, whatever is delivered and
  however the callback runs, the status record keeps the value it had at that test (a
  later Stop writes Stopped over Stopped) and the entry routine stays returned. And in
  any state, a step of the loop (its test, its sleep) leaves the status record as it is.
\<close>

theorem stopped_is_final:
  "(mpc c = L26 \<and> dwCurrentState (serviceStatus (mem c)) = SERVICE_STOPPED \<longrightarrow>
      step h Main c = Some (c (| mpc := L29 |))
      \<and> (\<forall>evs c'. exec h evs (c (| mpc := L29 |)) = Some c' \<longrightarrow>
            serviceStatus (mem c') = serviceStatus (mem c) \<and> mpc c' = L29))
   \<and> (in_loop d \<and> step h Main d = Some d' \<longrightarrow>
        serviceStatus (mem d') = serviceStatus (mem d) \<and> reports (mem d') = reports (mem d))"
proof -
  have a: "step h Main c = Some (c (| mpc := L29 |))
      \<and> (\<forall>evs c'. exec h evs (c (| mpc := L29 |)) = Some c' \<longrightarrow>
            serviceStatus (mem c') = serviceStatus (mem c) \<and> mpc c' = L29)"
    if m: "mpc c = L26" and s: "dwCurrentState (serviceStatus (mem c)) = SERVICE_STOPPED"
  proof -
    from m s have x: "step h Main c = Some (c (| mpc := L29 |))"
      by (simp add: running_not_stopped [symmetric])
    have y: "serviceStatus (mem c') = serviceStatus (mem c) \<and> mpc c' = L29"
      if e: "exec h evs (c (| mpc := L29 |)) = Some c'" for evs c'
    proof -
      from s have s': "dwCurrentState (serviceStatus (mem (c (| mpc := L29 |)))) = SERVICE_STOPPED"
        by simp
      have p: "past_init (c (| mpc := L29 |))" by (simp add: past_init_def)
      from exec_stopped [OF e s' p] show ?thesis
        by (auto simp: loop_rank_def past_init_def split: if_splits)
    qed
    from x y show ?thesis by blast
  qed
  have b: "serviceStatus (mem d') = serviceStatus (mem d) \<and> reports (mem d') = reports (mem d)"
    if "in_loop d" and "step h Main d = Some d'"
    using that by (auto simp: in_loop_def Sleep_def)
  from a b show ?thesis by blast
qed

text \<open>
  A run of it: the stopped service at the loop's test; after the test a further Stop is
  delivered and processed. And the running service in the loop body takes its sleep.
\<close>

theorem stopped_is_final_witness:
  "mpc (stopped_config (| mpc := L26 |)) = L26
   \<and> dwCurrentState (serviceStatus (mem (stopped_config (| mpc := L26 |)))) = SERVICE_STOPPED
   \<and> step 1 Main (stopped_config (| mpc := L26 |)) = Some (stopped_config (| mpc := L29 |))
   \<and> exec 1 (callback_run SERVICE_CONTROL_STOP) (stopped_config (| mpc := L29 |)) =
       Some (stopped_config (| mpc := L29,
          mem := ServiceCtrlHandler SERVICE_CONTROL_STOP (mem stopped_config) |))
   \<and> serviceStatus (ServiceCtrlHandler SERVICE_CONTROL_STOP (mem stopped_config)) =
       serviceStatus (mem stopped_config)
   \<and> in_loop running_config
   \<and> step 1 Main running_config =
       Some (running_config (| mem := Sleep 1000 (mem running_config), mpc := L26 |))
   \<and> serviceStatus (Sleep 1000 (mem running_config)) = serviceStatus (mem running_config)"
proof -
  let ?c = "stopped_config (| mpc := L26 |)"
  let ?c' = "stopped_config (| mpc := L29,
          mem := ServiceCtrlHandler SERVICE_CONTROL_STOP (mem stopped_config) |)"
  let ?d' = "running_config (| mem := Sleep 1000 (mem running_config), mpc := L26 |)"
  have m: "mpc ?c = L26" by simp
  have s: "dwCurrentState (serviceStatus (mem ?c)) = SERVICE_STOPPED"
    by (simp add: stopped_config_def ServiceCtrlHandler_def stmt_defs)
  have e: "exec 1 (callback_run SERVICE_CONTROL_STOP) (?c (| mpc := L29 |)) = Some ?c'"
    by (simp add: callback_run_exec stopped_config_def running_config_def)
  have l: "in_loop running_config" by (simp add: in_loop_def running_config_def)
  have t: "step 1 Main running_config = Some ?d'"
    by (simp add: running_config_def)
  note th = stopped_is_final [of ?c 1 running_config ?d']
  from th m s have x: "step 1 Main ?c = Some (?c (| mpc := L29 |))" by blast
  from th m s e have y: "serviceStatus (mem ?c') = serviceStatus (mem ?c)" by blast
  from th l t have z: "serviceStatus (mem ?d') = serviceStatus (mem running_config)" by blast
  from m s e l t x y z show ?thesis by simp
qed


text \<open>
  C10, as stated, fails for a Stop processed after line 20. From the start of the
  process, with handle 1: the entry routine executes lines 14, 19 and 20, so the
  initialisation is not complete; the callback processes a Stop; the entry routine goes
  on with lines 21, 23 and 26. The Stopped written by the callback is not overwritten:
  the state is Stopped and not Running, and the run loop is not entered, for the first
  test sends the entry routine to its return without a sleep.
\<close>

theorem stop_after_line_20_counterexample:
  "exec 1 (stop_after 3 3) (ServiceMain_entry initial_globals) =
     Some (| mem = stop_after_line_20, mpc = L29, hpc = HIdle |)
   \<and> dwCurrentState (serviceStatus stop_after_line_20) = SERVICE_STOPPED
   \<and> dwCurrentState (serviceStatus stop_after_line_20) \<noteq> SERVICE_RUNNING
   \<and> slept stop_after_line_20 = 0"
proof -
  have s: "dwCurrentState (serviceStatus stop_after_line_20) = SERVICE_STOPPED"
    by (simp add: stop_after_line_20_def ServiceCtrlHandler_def stmt_defs)
  have e: "exec 1 (stop_after 3 3) (ServiceMain_entry initial_globals) =
     Some (| mem = stop_after_line_20, mpc = L29, hpc = HIdle |)"
    by (simp add: stop_after_def callback_run_def numeral_eq_Suc ServiceMain_entry_def
        stop_after_line_20_def ServiceCtrlHandler_def stmt_defs
        running_not_stopped [symmetric])
  have z: "slept stop_after_line_20 = 0"
    by (simp add: stop_after_line_20_def ServiceCtrlHandler_def stmt_defs initial_globals_def)
  from s e z running_not_stopped show ?thesis by simp
qed

text \<open>
  C10, amended. The initialisation sets \<open>dwCurrentState\<close> to Running whatever the
  record held before: so does line 20 as a step, and so does the whole of lines 14 to 23.
  Hence, if the callback processes a Stop after the registration of line 14 and before
  the assignment of line 20 (after one or two statements of the entry routine), its
  Stopped is reported and then overwritten: after the initialisation the state is
  Running, the record reported at line 23 says Running, and at its sixth statement the
  entry routine is inside the run loop.
\<close>

theorem stop_before_line_20_overwritten:
  "dwCurrentState (serviceStatus (ServiceMain_init h g)) = SERVICE_RUNNING
   \<and> (mpc c = L20 \<longrightarrow>
        step h Main c = Some (c (| mem := set_dwCurrentState SERVICE_RUNNING (mem c),
                                   mpc := L21 |))
        \<and> dwCurrentState (serviceStatus (set_dwCurrentState SERVICE_RUNNING (mem c))) =
            SERVICE_RUNNING)
   \<and> (k = 1 \<or> k = 2 \<longrightarrow>
        (\<exists>c'. exec h (stop_after k (6 - k)) (ServiceMain_entry g) = Some c'
           \<and> mpc c' = L27
           \<and> dwCurrentState (serviceStatus (mem c')) = SERVICE_RUNNING
           \<and> serviceStatus (mem c') = serviceStatus (ServiceMain_init h g)
           \<and> map (dwCurrentState \<circ> snd) (reports (mem c')) =
               map (dwCurrentState \<circ> snd) (reports g) @ [SERVICE_STOPPED, SERVICE_RUNNING]))"
proof -
  have a: "dwCurrentState (serviceStatus (ServiceMain_init h g)) = SERVICE_RUNNING"
    by (simp add: ServiceMain_init_def stmt_defs)
  have b: "mpc c = L20 \<longrightarrow>
        step h Main c = Some (c (| mem := set_dwCurrentState SERVICE_RUNNING (mem c),
                                   mpc := L21 |))
        \<and> dwCurrentState (serviceStatus (set_dwCurrentState SERVICE_RUNNING (mem c))) =
            SERVICE_RUNNING"
    by (simp add: set_dwCurrentState_def)
  have c1: "\<exists>c'. exec h (stop_after 1 (6 - 1)) (ServiceMain_entry g) = Some c'
           \<and> mpc c' = L27
           \<and> dwCurrentState (serviceStatus (mem c')) = SERVICE_RUNNING
           \<and> serviceStatus (mem c') = serviceStatus (ServiceMain_init h g)
           \<and> map (dwCurrentState \<circ> snd) (reports (mem c')) =
               map (dwCurrentState \<circ> snd) (reports g) @ [SERVICE_STOPPED, SERVICE_RUNNING]"
    by (simp add: stop_after_def callback_run_def numeral_eq_Suc ServiceMain_entry_def
        ServiceMain_init_def stmt_defs)
  have c2: "\<exists>c'. exec h (stop_after 2 (6 - 2)) (ServiceMain_entry g) = Some c'
           \<and> mpc c' = L27
           \<and> dwCurrentState (serviceStatus (mem c')) = SERVICE_RUNNING
           \<and> serviceStatus (mem c') = serviceStatus (ServiceMain_init h g)
           \<and> map (dwCurrentState \<circ> snd) (reports (mem c')) =
               map (dwCurrentState \<circ> snd) (reports g) @ [SERVICE_STOPPED, SERVICE_RUNNING]"
    by (simp add: stop_after_def callback_run_def numeral_eq_Suc ServiceMain_entry_def
        ServiceMain_init_def stmt_defs)
  from a b c1 c2 show ?thesis by blast
qed

text \<open>
  A run of it: line 20 executed on a record that says Stopped; and, from the start of
  the process with handle 1, a Stop processed right after line 14.
\<close>

theorem stop_before_line_20_overwritten_witness:
  "mpc (stopped_config (| mpc := L20 |)) = L20
   \<and> dwCurrentState (serviceStatus (mem (stopped_config (| mpc := L20 |)))) = SERVICE_STOPPED
   \<and> step 1 Main (stopped_config (| mpc := L20 |)) =
       Some (stopped_config (| mem := set_dwCurrentState SERVICE_RUNNING (mem stopped_config),
                               mpc := L21 |))
   \<and> dwCurrentState (serviceStatus (set_dwCurrentState SERVICE_RUNNING (mem stopped_config))) =
       SERVICE_RUNNING
   \<and> exec 1 (stop_after 1 5) (ServiceMain_entry initial_globals) =
       Some (| mem = stop_after_line_14, mpc = L27, hpc = HIdle |)
   \<and> dwCurrentState (serviceStatus stop_after_line_14) = SERVICE_RUNNING
   \<and> map (dwCurrentState \<circ> snd) (reports stop_after_line_14) =
       [SERVICE_STOPPED, SERVICE_RUNNING]"
proof -
  have m: "mpc (stopped_config (| mpc := L20 |)) = L20" by simp
  have s: "dwCurrentState (serviceStatus (mem (stopped_config (| mpc := L20 |)))) =
      SERVICE_STOPPED"
    by (simp add: stopped_config_def ServiceCtrlHandler_def stmt_defs)
  have k: "(1::nat) = 1 \<or> (1::nat) = 2" by simp
  have e: "exec 1 (stop_after 1 5) (ServiceMain_entry initial_globals) =
       Some (| mem = stop_after_line_14, mpc = L27, hpc = HIdle |)"
    by (simp add: stop_after_def callback_run_def numeral_eq_Suc ServiceMain_entry_def
        stop_after_line_14_def ServiceMain_init_def ServiceCtrlHandler_def stmt_defs)
  have r: "reports initial_globals = []" by (simp add: initial_globals_def)
  note th = stop_before_line_20_overwritten
    [of 1 initial_globals "stopped_config (| mpc := L20 |)" 1]
  from th m have x: "step 1 Main (stopped_config (| mpc := L20 |)) =
       Some (stopped_config (| mpc := L20 |)
          (| mem := set_dwCurrentState SERVICE_RUNNING (mem (stopped_config (| mpc := L20 |))),
             mpc := L21 |))
     \<and> dwCurrentState (serviceStatus (set_dwCurrentState SERVICE_RUNNING
          (mem (stopped_config (| mpc := L20 |))))) = SERVICE_RUNNING"
    by blast
  from th k e r have y: "dwCurrentState (serviceStatus stop_after_line_14) = SERVICE_RUNNING
     \<and> map (dwCurrentState \<circ> snd) (reports stop_after_line_14) =
         [SERVICE_STOPPED, SERVICE_RUNNING]"
    by auto
  from m s x e y show ?thesis by simp
qed

end
